theory Spec2Isabelle
  imports Main
begin

section \<open>The debt review lead service (Debtreviewserver.js)\<close>

text \<open>
  The service has two HTTP handlers over one table \<open>clients\<close>:
  \<^verbatim>\<open>POST /api/clients/add\<close> validates a submission, looks the phone number up,
  and inserts a row; \<^verbatim>\<open>GET /api/clients/export\<close> reads the table and writes it
  through a CSV writer created once, when the module is loaded.

  Everything outside the source file is made explicit here:
  \<^item> the three format predicates of the validation library (\<open>isMobilePhone\<close>,
    \<open>isEmail\<close>, \<open>isISO8601\<close>) are parameters, collected in the record
    \<open>validators\<close>; every theorem holds for all of them;
  \<^item> whether a query or the CSV write fails, the clock, the date the datastore reads
    from a string and the time zone of the runtime are inputs (the record \<open>env\<close>);
    a failure carries the driver's error detail;
  \<^item> the table, the CSV writer's flag and the file \<^verbatim>\<open>clients.csv\<close> are the
    state (the record \<open>server\<close>), passed in and returned.
\<close>

subsection \<open>Request bodies\<close>

text \<open>
  A field of the JSON body is absent (\<open>Undefined\<close> when the handler reads it), the
  JSON \<open>null\<close>, or a JSON string. The documented schema declares every field a
  string; numbers, booleans, arrays and objects are outside this model.
\<close>

datatype jsvalue = Undefined | Null | Str string

record 'v client =
  title :: 'v
  name :: 'v
  surname :: 'v
  phone_number :: 'v
  id_number :: 'v
  email :: 'v
  notes' :: 'v
  optindate :: 'v
  preferred_time :: 'v
  offerID :: 'v

type_synonym submission = "jsvalue client"

subsection \<open>The validation chains (lines 202--211)\<close>

text \<open>
  The standard validators of the library work on the string form of the value, in which
  \<open>undefined\<close> and \<open>null\<close> are the empty string; \<open>isString\<close> alone looks at the
  type of the value.
\<close>

definition toString :: "jsvalue \<Rightarrow> string" where
  "toString v = (case v of Str s \<Rightarrow> s | Null \<Rightarrow> [] | Undefined \<Rightarrow> [])"

record validators =
  isMobilePhone :: "string \<Rightarrow> bool"
  isEmail :: "string \<Rightarrow> bool"
  isISO8601 :: "string \<Rightarrow> bool"

definition digits :: "char set" where
  "digits = set ''0123456789''"

text \<open>The pattern \<^verbatim>\<open>/^([01]\d|2[0-3]):([0-5]\d):([0-5]\d)$/\<close> of line 210.\<close>

fun matches_time :: "string \<Rightarrow> bool" where
  "matches_time [h1, h2, c1, m1, m2, c2, s1, s2] =
     (((h1 \<in> set ''01'' \<and> h2 \<in> digits) \<or> (h1 = CHR ''2'' \<and> h2 \<in> set ''0123''))
      \<and> c1 = CHR '':'' \<and> m1 \<in> set ''012345'' \<and> m2 \<in> digits
      \<and> c2 = CHR '':'' \<and> s1 \<in> set ''012345'' \<and> s2 \<in> digits)"
| "matches_time _ = False"

datatype validator =
    NotEmpty
  | IsMobilePhone
  | IsLength nat nat
  | IsEmail
  | IsISO8601
  | MatchesTime
  | IsString

fun passes :: "validators \<Rightarrow> validator \<Rightarrow> jsvalue \<Rightarrow> bool" where
  "passes V NotEmpty v = (toString v \<noteq> [])"
| "passes V IsMobilePhone v = isMobilePhone V (toString v)"
| "passes V (IsLength mn mx) v = (mn \<le> length (toString v) \<and> length (toString v) \<le> mx)"
| "passes V IsEmail v = isEmail V (toString v)"
| "passes V IsISO8601 v = isISO8601 V (toString v)"
| "passes V MatchesTime v = matches_time (toString v)"
| "passes V IsString v = (case v of Str s \<Rightarrow> True | Null \<Rightarrow> False | Undefined \<Rightarrow> False)"

record chain =
  path :: string
  sel :: "submission \<Rightarrow> jsvalue"
  is_optional :: bool
  check :: validator
  message :: string

definition chains :: "chain list" where
  "chains =
    [\<lparr>path = ''title'', sel = title, is_optional = False, check = NotEmpty,
      message = ''Title is required''\<rparr>,
     \<lparr>path = ''name'', sel = name, is_optional = False, check = NotEmpty,
      message = ''Name is required''\<rparr>,
     \<lparr>path = ''surname'', sel = surname, is_optional = False, check = NotEmpty,
      message = ''Surname is required''\<rparr>,
     \<lparr>path = ''phone_number'', sel = phone_number, is_optional = False, check = IsMobilePhone,
      message = ''Invalid phone number''\<rparr>,
     \<lparr>path = ''id_number'', sel = id_number, is_optional = False, check = IsLength 13 13,
      message = ''ID number must be 13 digits''\<rparr>,
     \<lparr>path = ''email'', sel = email, is_optional = False, check = IsEmail,
      message = ''Invalid email''\<rparr>,
     \<lparr>path = ''optindate'', sel = optindate, is_optional = True, check = IsISO8601,
      message = ''Invalid opt-in date''\<rparr>,
     \<lparr>path = ''preferred_time'', sel = preferred_time, is_optional = True, check = MatchesTime,
      message = ''Invalid preferred time format''\<rparr>,
     \<lparr>path = ''offerID'', sel = offerID, is_optional = True, check = IsString,
      message = ''OfferID must be a string''\<rparr>]"

text \<open>One entry of \<^verbatim>\<open>errors.array()\<close>.\<close>

record verror =
  err_value :: jsvalue
  msg :: string
  param :: string
  location :: string

text \<open>
  A chain marked \<^verbatim>\<open>optional()\<close> is skipped when the field is \<open>undefined\<close>, and
  only then. Every chain runs, whatever the others found.
\<close>

definition run_chain :: "validators \<Rightarrow> chain \<Rightarrow> submission \<Rightarrow> verror list" where
  "run_chain V c b =
     (let v = sel c b in
      if is_optional c \<and> v = Undefined then []
      else if passes V (check c) v then []
      else [\<lparr>err_value = v, msg = message c, param = path c, location = ''body''\<rparr>])"

definition validationResult :: "validators \<Rightarrow> submission \<Rightarrow> verror list" where
  "validationResult V b = concat (map (\<lambda>c. run_chain V c b) chains)"

subsection \<open>The datastore\<close>

text \<open>
  Modelled from the spec: the table \<open>clients\<close> and its schema are not part of the
  source file. A row holds the ten columns of the Client entity of section 3 and the
  identifier the datastore generates on insert. The column \<open>optindate\<close> is a date, the
  other nine are strings; every column may be \<open>NULL\<close>. Rows are kept in insertion
  order, a parameter is compared with a column as SQL does (\<open>NULL\<close> equals nothing),
  and a failed statement changes nothing.

  The connection of lines 29--34 sets no option for dates, so the driver hands a date
  column to the handler as a date object of the runtime, at midnight local time, and
  a string column as a string.
\<close>

datatype date = Date nat nat nat

datatype sqlvalue = SqlNull | SqlString string | SqlDate date

record stored =
  leadId :: nat
  cols :: "sqlvalue client"

record server =
  clients :: "stored list"
  next_id :: nat
  writer_append :: bool
  csv_file :: string

text \<open>
  What the handlers cannot decide themselves: the clock; for each datastore statement
  and for the CSV write whether it fails (\<open>Some detail\<close>) or not; the calendar date
  the datastore reads from the string bound to a date column when the insert
  succeeds; and the zone with which the runtime prints a local time, such as
  \<^verbatim>\<open>+0000 (Coordinated Universal Time)\<close>.
\<close>

record env =
  now :: string
  lookup_err :: "string option"
  insert_err :: "string option"
  select_err :: "string option"
  csv_err :: "string option"
  sql_date :: "string \<Rightarrow> date"
  zone :: string

definition sql_param :: "jsvalue \<Rightarrow> string option" where
  "sql_param v = (case v of Str s \<Rightarrow> Some s | Null \<Rightarrow> None | Undefined \<Rightarrow> None)"

text \<open>\<^verbatim>\<open>SELECT * FROM clients WHERE phone_number = ?\<close>\<close>

definition select_by_phone :: "stored list \<Rightarrow> string option \<Rightarrow> stored list" where
  "select_by_phone rows p =
     filter (\<lambda>r. case p of
                    None \<Rightarrow> False
                  | Some y \<Rightarrow> phone_number (cols r) = SqlString y) rows"

definition checkQuery :: "env \<Rightarrow> server \<Rightarrow> jsvalue \<Rightarrow> string + stored list" where
  "checkQuery e s phone =
     (case lookup_err e of
        Some detail \<Rightarrow> Inl detail
      | None \<Rightarrow> Inr (select_by_phone (clients s) (sql_param phone)))"

text \<open>What a string column and a date column keep of a bound parameter.\<close>

definition text_column :: "jsvalue \<Rightarrow> sqlvalue" where
  "text_column v = (case sql_param v of None \<Rightarrow> SqlNull | Some str \<Rightarrow> SqlString str)"

definition date_column :: "env \<Rightarrow> jsvalue \<Rightarrow> sqlvalue" where
  "date_column e v =
     (case sql_param v of None \<Rightarrow> SqlNull | Some str \<Rightarrow> SqlDate (sql_date e str))"

definition to_row :: "env \<Rightarrow> submission \<Rightarrow> sqlvalue client" where
  "to_row e b =
     \<lparr>title = text_column (title b), name = text_column (name b),
      surname = text_column (surname b), phone_number = text_column (phone_number b),
      id_number = text_column (id_number b), email = text_column (email b),
      notes' = text_column (notes' b), optindate = date_column e (optindate b),
      preferred_time = text_column (preferred_time b), offerID = text_column (offerID b)\<rparr>"

text \<open>\<^verbatim>\<open>INSERT INTO clients (title, ..., offerID) VALUES (?, ..., ?)\<close>; the result is
  the error or \<open>insertId\<close>, and the table afterwards.\<close>

definition insertQuery :: "env \<Rightarrow> server \<Rightarrow> submission \<Rightarrow> (string + nat) \<times> server" where
  "insertQuery e s b =
     (case insert_err e of
        Some detail \<Rightarrow> (Inl detail, s)
      | None \<Rightarrow>
          (Inr (next_id s),
           s\<lparr>clients := clients s @ [\<lparr>leadId = next_id s, cols = to_row e b\<rparr>],
             next_id := Suc (next_id s)\<rparr>))"

text \<open>\<^verbatim>\<open>SELECT * FROM clients\<close>\<close>

definition selectAll :: "env \<Rightarrow> server \<Rightarrow> string + stored list" where
  "selectAll e s =
     (case select_err e of Some detail \<Rightarrow> Inl detail | None \<Rightarrow> Inr (clients s))"

subsection \<open>Responses\<close>

datatype jval =
    JNull
  | JNum int
  | JStr string
  | JArr "verror list"
  | JObj "(string \<times> string) list"

type_synonym json_object = "(string \<times> jval) list"

datatype reply =
    Json json_object
  | Download string string

record response =
  status :: nat
  reply :: reply

text \<open>Reading a property, and assigning one (\<^verbatim>\<open>response.leadId = ...\<close>).\<close>

definition get_prop :: "string \<Rightarrow> json_object \<Rightarrow> jval option" where
  "get_prop k obj = map_of obj k"

fun set_prop :: "string \<Rightarrow> jval \<Rightarrow> json_object \<Rightarrow> json_object" where
  "set_prop k v [] = [(k, v)]"
| "set_prop k v ((k', v') # kvs) =
     (if k' = k then (k, v) # kvs else (k', v') # set_prop k v kvs)"

definition validation_error :: "env \<Rightarrow> verror list \<Rightarrow> json_object" where
  "validation_error e errors =
     [(''code'', JNum (- 5)), (''response'', JStr ''Validation error''),
      (''info'', JArr errors), (''leadId'', JNull), (''processTime'', JNum 0),
      (''timestamp'', JStr (now e))]"

definition internal_error :: "env \<Rightarrow> string \<Rightarrow> json_object" where
  "internal_error e what =
     [(''code'', JNum (- 100)), (''response'', JStr ''Internal error''),
      (''info'', JObj [(''error'', what)]), (''leadId'', JNull), (''processTime'', JNum 0),
      (''timestamp'', JStr (now e))]"

definition duplicate_lead :: "env \<Rightarrow> json_object" where
  "duplicate_lead e =
     [(''code'', JNum (- 2)), (''response'', JStr ''Invalid Lead''),
      (''description'', JStr ''Duplicate''), (''leadId'', JNull), (''processTime'', JNum 0),
      (''timestamp'', JStr (now e))]"

definition ok_response :: "env \<Rightarrow> json_object" where
  "ok_response e =
     [(''code'', JNum 1), (''response'', JStr ''OK''), (''info'', JArr []),
      (''leadId'', JNull), (''processTime'', JNum 0), (''timestamp'', JStr (now e))]"

subsection \<open>The insert handler (lines 212--278)\<close>

definition add_handler ::
  "validators \<Rightarrow> env \<Rightarrow> server \<Rightarrow> submission \<Rightarrow> response \<times> server" where
  "add_handler V e s b =
     (let errors = validationResult V b in
      if errors \<noteq> [] then (\<lparr>status = 400, reply = Json (validation_error e errors)\<rparr>, s)
      else
        case checkQuery e s (phone_number b) of
          Inl err \<Rightarrow>
            (\<lparr>status = 500, reply = Json (internal_error e ''Database error'')\<rparr>, s)
        | Inr results \<Rightarrow>
            if length results > 0 then (\<lparr>status = 400, reply = Json (duplicate_lead e)\<rparr>, s)
            else
              let (outcome, s') = insertQuery e s b;
                  response =
                    (case outcome of
                       Inl err \<Rightarrow> internal_error e ''Database error''
                     | Inr insertId \<Rightarrow> set_prop ''leadId'' (JNum (int insertId)) (ok_response e))
              in (\<lparr>status = (if get_prop ''code'' response = Some (JNum 1) then 201 else 400),
                   reply = Json response\<rparr>, s'))"

subsection \<open>The CSV writer (lines 324--338)\<close>

text \<open>
  The writer is the library's object CSV writer, created once with \<open>append\<close> left at
  its default \<open>false\<close>. A field that is \<open>null\<close>, \<open>undefined\<close> or the empty string is
  written as nothing; any other field is written as the runtime's string for it, in
  double quotes with its quotes doubled when that string holds the delimiter, a line
  feed or a double quote. A record is its fields joined by commas; records are joined
  by line feeds, and one more line feed ends them, also when there is no record. The
  file is its text.
\<close>

definition header :: "((sqlvalue client \<Rightarrow> sqlvalue) \<times> string) list" where
  "header =
     [(title, ''Title''), (name, ''Name''), (surname, ''Surname''),
      (phone_number, ''Phone Number''), (id_number, ''ID Number''), (email, ''Email''),
      (notes', ''Notes''), (optindate, ''Opt-in Date''),
      (preferred_time, ''Preferred Time''), (offerID, ''Offer ID'')]"

text \<open>
  The runtime's string for a date object at midnight local time, as in
  \<^verbatim>\<open>Wed Jul 31 2024 00:00:00 GMT+0000 (Coordinated Universal Time)\<close>: the day of the
  week (0 is Sunday), the month, the day on two digits, the year on four.
\<close>

definition getDay :: "date \<Rightarrow> nat" where
  "getDay d =
     (case d of Date y m dd \<Rightarrow>
        let y' = (if m < 3 then y - 1 else y);
            t = [0, 3, 2, 5, 0, 3, 5, 1, 4, 6, 2, 4] ! ((m - 1) mod 12)
        in (y' + y' div 4 + y' div 400 + t + dd - y' div 100) mod 7)"

definition digit :: "nat \<Rightarrow> char" where
  "digit n = ''0123456789'' ! (n mod 10)"

definition dateToString :: "string \<Rightarrow> date \<Rightarrow> string" where
  "dateToString z d =
     (case d of Date y m dd \<Rightarrow>
        [''Sun'', ''Mon'', ''Tue'', ''Wed'', ''Thu'', ''Fri'', ''Sat''] ! getDay d @ '' '' @
        [''Jan'', ''Feb'', ''Mar'', ''Apr'', ''May'', ''Jun'', ''Jul'', ''Aug'', ''Sep'', ''Oct'',
         ''Nov'', ''Dec''] ! ((m - 1) mod 12) @ '' '' @
        [digit (dd div 10), digit dd] @ '' '' @
        [digit (y div 1000), digit (y div 100), digit (y div 10), digit y] @
        '' 00:00:00 GMT'' @ z)"

text \<open>\<^verbatim>\<open>String(value)\<close> on what the driver hands over.\<close>

definition string_of :: "string \<Rightarrow> sqlvalue \<Rightarrow> string" where
  "string_of z v =
     (case v of SqlNull \<Rightarrow> ''null'' | SqlString str \<Rightarrow> str | SqlDate d \<Rightarrow> dateToString z d)"

definition isEmpty :: "sqlvalue \<Rightarrow> bool" where
  "isEmpty v = (v = SqlNull \<or> v = SqlString [])"

definition needsQuote :: "string \<Rightarrow> bool" where
  "needsQuote str = (CHR '','' \<in> set str \<or> CHR 0x0A \<in> set str \<or> CHR 0x22 \<in> set str)"

definition quoteField :: "string \<Rightarrow> string" where
  "quoteField field =
     CHR 0x22 # concat (map (\<lambda>c. if c = CHR 0x22 then [CHR 0x22, CHR 0x22] else [c]) field)
       @ [CHR 0x22]"

definition stringify :: "string \<Rightarrow> sqlvalue \<Rightarrow> string" where
  "stringify z v =
     (if isEmpty v then []
      else let str = string_of z v in if needsQuote str then quoteField str else str)"

fun join :: "string \<Rightarrow> string list \<Rightarrow> string" where
  "join d [] = []"
| "join d [x] = x"
| "join d (x # y # ys) = x @ d @ join d (y # ys)"

definition getCsvLine :: "string \<Rightarrow> sqlvalue list \<Rightarrow> string" where
  "getCsvLine z fieldValues = join '','' (map (stringify z) fieldValues)"

definition joinRecords :: "string list \<Rightarrow> string" where
  "joinRecords records = join [CHR 0x0A] records @ [CHR 0x0A]"

definition getRecordAsArray :: "sqlvalue client \<Rightarrow> sqlvalue list" where
  "getRecordAsArray r = map (\<lambda>(field, t). field r) header"

definition getHeaderString :: "string \<Rightarrow> string" where
  "getHeaderString z = joinRecords [getCsvLine z (map (\<lambda>(field, t). SqlString t) header)]"

definition stringifyRecords :: "string \<Rightarrow> stored list \<Rightarrow> string" where
  "stringifyRecords z rows =
     joinRecords (map (\<lambda>r. getCsvLine z (getRecordAsArray (cols r))) rows)"

text \<open>
  \<^verbatim>\<open>writeRecords\<close>: the header is written, and the file replaced, only while the
  writer's \<open>append\<close> flag is unset; a write that succeeds sets the flag, so that every
  later write of the same writer adds its records to the end of the file.
\<close>

definition writeRecords :: "env \<Rightarrow> server \<Rightarrow> stored list \<Rightarrow> string + server" where
  "writeRecords e s rows =
     (case csv_err e of
        Some detail \<Rightarrow> Inl detail
      | None \<Rightarrow>
          Inr (s\<lparr>csv_file :=
                   (if writer_append s then csv_file s else getHeaderString (zone e))
                   @ stringifyRecords (zone e) rows,
                 writer_append := True\<rparr>))"

subsection \<open>The export handler (lines 340--370)\<close>

definition export_handler :: "env \<Rightarrow> server \<Rightarrow> response \<times> server" where
  "export_handler e s =
     (case selectAll e s of
        Inl err \<Rightarrow> (\<lparr>status = 500, reply = Json (internal_error e ''Database error'')\<rparr>, s)
      | Inr rows \<Rightarrow>
          (case writeRecords e s rows of
             Inl error \<Rightarrow>
               (\<lparr>status = 500, reply = Json (internal_error e ''CSV writing error'')\<rparr>, s)
           | Inr s' \<Rightarrow> (\<lparr>status = 200, reply = Download ''clients.csv'' (csv_file s')\<rparr>, s')))"

subsection \<open>The rules of the specification\<close>

text \<open>
  The validation rules as section 4.1 of the specification words them, one per field,
  in the order of the specification: the fields a submission violates.
\<close>

definition missing_or_empty :: "jsvalue \<Rightarrow> bool" where
  "missing_or_empty v = (v = Undefined \<or> v = Null \<or> v = Str [])"

definition is_string :: "jsvalue \<Rightarrow> bool" where
  "is_string v = (case v of Str s \<Rightarrow> True | Null \<Rightarrow> False | Undefined \<Rightarrow> False)"

definition failing_fields :: "validators \<Rightarrow> submission \<Rightarrow> string list" where
  "failing_fields V b =
     (if missing_or_empty (title b) then [''title''] else []) @
     (if missing_or_empty (name b) then [''name''] else []) @
     (if missing_or_empty (surname b) then [''surname''] else []) @
     (if isMobilePhone V (toString (phone_number b)) then [] else [''phone_number'']) @
     (if length (toString (id_number b)) = 13 then [] else [''id_number'']) @
     (if isEmail V (toString (email b)) then [] else [''email'']) @
     (if optindate b = Undefined \<or> isISO8601 V (toString (optindate b))
      then [] else [''optindate'']) @
     (if preferred_time b = Undefined \<or> matches_time (toString (preferred_time b))
      then [] else [''preferred_time'']) @
     (if offerID b = Undefined \<or> is_string (offerID b) then [] else [''offerID''])"

text \<open>The phone number of the submission is the phone number of a row of the table.\<close>

definition phone_exists :: "server \<Rightarrow> submission \<Rightarrow> bool" where
  "phone_exists s b =
     (case phone_number b of
        Str p \<Rightarrow> SqlString p \<in> set (map (\<lambda>r. phone_number (cols r)) (clients s))
      | Null \<Rightarrow> False
      | Undefined \<Rightarrow> False)"

text \<open>The envelope of section 7, and the property names of a JSON reply.\<close>

definition envelope :: "string list" where
  "envelope = [''code'', ''response'', ''info'', ''leadId'', ''processTime'', ''timestamp'']"

definition reply_fields :: "response \<Rightarrow> string list option" where
  "reply_fields r = (case reply r of Json obj \<Rightarrow> Some (map fst obj) | Download f ls \<Rightarrow> None)"

definition reply_code :: "response \<Rightarrow> jval option" where
  "reply_code r = (case reply r of Json obj \<Rightarrow> get_prop ''code'' obj | Download f ls \<Rightarrow> None)"

text \<open>The body of the datastore failure of section 7, at a given time.\<close>

definition database_error :: "string \<Rightarrow> json_object" where
  "database_error t =
     [(''code'', JNum (- 100)), (''response'', JStr ''Internal error''),
      (''info'', JObj [(''error'', ''Database error'')]), (''leadId'', JNull),
      (''processTime'', JNum 0), (''timestamp'', JStr t)]"

text \<open>The property names of the reply to a duplicate (lines 240--247).\<close>

definition duplicate_fields :: "string list" where
  "duplicate_fields =
     [''code'', ''response'', ''description'', ''leadId'', ''processTime'', ''timestamp'']"

subsection \<open>Sample data\<close>

text \<open>
  Concrete inputs on which the theorems below are instantiated. The three format
  predicates are stand-ins that accept the values of the documented examples; the
  date the datastore reads is that of a string \<^verbatim>\<open>YYYY-MM-DD\<close>.
\<close>

definition sample_validators :: validators where
  "sample_validators =
     \<lparr>isMobilePhone = (\<lambda>str. str = ''+27123456789'' \<or> str = ''+27821234567''),
      isEmail = (\<lambda>str. CHR ''@'' \<in> set str),
      isISO8601 = (\<lambda>str. str = ''2024-07-31'')\<rparr>"

definition digit_value :: "char \<Rightarrow> nat" where
  "digit_value c = length (takeWhile (\<lambda>d. d \<noteq> c) ''0123456789'')"

fun read_date :: "string \<Rightarrow> date" where
  "read_date [y1, y2, y3, y4, s1, m1, m2, s2, d1, d2] =
     Date (1000 * digit_value y1 + 100 * digit_value y2 + 10 * digit_value y3 + digit_value y4)
          (10 * digit_value m1 + digit_value m2)
          (10 * digit_value d1 + digit_value d2)"
| "read_date str = Date 0 0 0"

definition john :: submission where
  "john =
     \<lparr>title = Str ''Mr.'', name = Str ''John'', surname = Str ''Doe'',
      phone_number = Str ''+27123456789'', id_number = Str ''1234567890123'',
      email = Str ''john.doe@example.com'',
      notes' = Str ''Client prefers to be contacted in the evening.'',
      optindate = Str ''2024-07-31'', preferred_time = Str ''18:00:00'',
      offerID = Str ''Offer123''\<rparr>"

definition calm :: env where
  "calm =
     \<lparr>now = ''2024-07-31T12:59:15.607Z'', lookup_err = None, insert_err = None,
      select_err = None, csv_err = None, sql_date = read_date,
      zone = ''+0000 (Coordinated Universal Time)''\<rparr>"

definition fresh_server :: server where
  "fresh_server = \<lparr>clients = [], next_id = 101, writer_append = False, csv_file = []\<rparr>"

definition server_with_john :: server where
  "server_with_john =
     \<lparr>clients = [\<lparr>leadId = 101, cols = to_row calm john\<rparr>], next_id = 102,
      writer_append = False, csv_file = []\<rparr>"

definition incomplete :: submission where
  "incomplete = john\<lparr>title := Undefined, id_number := Str ''12345'', offerID := Null\<rparr>"

definition down :: env where
  "down =
     \<lparr>now = ''2024-07-31T12:59:15.607Z'',
      lookup_err = Some ''Error: connect ECONNREFUSED 127.0.0.1:3306'',
      insert_err = Some ''Error: ER_DATA_TOO_LONG'',
      select_err = Some ''Error: read ECONNRESET'',
      csv_err = Some ''EACCES: permission denied'', sql_date = read_date,
      zone = ''+0000 (Coordinated Universal Time)''\<rparr>"

section \<open>Properties\<close>

subsection \<open>Validation: the chains and the rules\<close>

text \<open>
  The fields named by \<^verbatim>\<open>errors.array()\<close> are exactly the fields that violate the
  rules of the specification, each once and in the order of the chains.
\<close>

lemma missing_or_empty_toString: "missing_or_empty v = (toString v = [])"
  by (cases v) (simp_all add: missing_or_empty_def toString_def)

lemma map_param_run_chain:
  "map param (run_chain V c b) =
     (if (is_optional c \<and> sel c b = Undefined) \<or> passes V (check c) (sel c b)
      then [] else [path c])"
  by (simp add: run_chain_def Let_def)

lemma map_param_validationResult:
  "map param (validationResult V b) =
     concat (map (\<lambda>c. if (is_optional c \<and> sel c b = Undefined) \<or> passes V (check c) (sel c b)
                        then [] else [path c]) chains)"
  by (simp add: validationResult_def map_concat comp_def map_param_run_chain)

lemma validationResult_params: "map param (validationResult V b) = failing_fields V b"
  unfolding map_param_validationResult chains_def failing_fields_def
  by (simp add: missing_or_empty_toString is_string_def)

lemma validationResult_Nil: "(validationResult V b = []) = (failing_fields V b = [])"
  using validationResult_params [of V b] by (metis map_is_Nil_conv)

text \<open>The pattern of the preferred time on the documented example and at its edges.\<close>

lemma matches_time_examples:
  "matches_time ''18:00:00''" "matches_time ''23:59:59''" "\<not> matches_time ''24:00:00''"
  "\<not> matches_time ''18:60:00''" "\<not> matches_time ''18:00''" "\<not> matches_time []"
  by (simp_all add: digits_def)

subsection \<open>The paths of the insert handler\<close>

lemma select_by_phone_Some:
  "select_by_phone rows (Some p) = filter (\<lambda>r. phone_number (cols r) = SqlString p) rows"
  by (simp add: select_by_phone_def)

lemma select_by_phone_None: "select_by_phone rows None = []"
  by (simp add: select_by_phone_def)

lemma select_by_phone_Nil:
  "(select_by_phone (clients s) (sql_param (phone_number b)) = []) = (\<not> phone_exists s b)"
proof (cases "phone_number b")
  case (Str p)
  then show ?thesis
    by (force simp: sql_param_def phone_exists_def select_by_phone_Some filter_empty_conv)
qed (simp_all add: sql_param_def phone_exists_def select_by_phone_None)

lemma add_handler_invalid:
  assumes "failing_fields V b \<noteq> []"
  shows "add_handler V e s b =
           (\<lparr>status = 400, reply = Json (validation_error e (validationResult V b))\<rparr>, s)"
  using assms by (simp add: add_handler_def Let_def validationResult_Nil)

lemma add_handler_lookup_failed:
  assumes "failing_fields V b = []" and "lookup_err e = Some detail"
  shows "add_handler V e s b =
           (\<lparr>status = 500, reply = Json (internal_error e ''Database error'')\<rparr>, s)"
  using assms by (simp add: add_handler_def Let_def validationResult_Nil checkQuery_def)

lemma add_handler_duplicate:
  assumes "failing_fields V b = []" and "lookup_err e = None" and "phone_exists s b"
  shows "add_handler V e s b = (\<lparr>status = 400, reply = Json (duplicate_lead e)\<rparr>, s)"
  using assms select_by_phone_Nil [of s b]
  by (simp add: add_handler_def Let_def validationResult_Nil checkQuery_def)

lemma add_handler_insert_failed:
  assumes "failing_fields V b = []" and "lookup_err e = None" and "\<not> phone_exists s b"
    and "insert_err e = Some detail"
  shows "add_handler V e s b =
           (\<lparr>status = 400, reply = Json (internal_error e ''Database error'')\<rparr>, s)"
  using assms select_by_phone_Nil [of s b]
  by (simp add: add_handler_def Let_def validationResult_Nil checkQuery_def insertQuery_def
        internal_error_def get_prop_def)

lemma add_handler_inserted:
  assumes "failing_fields V b = []" and "lookup_err e = None" and "\<not> phone_exists s b"
    and "insert_err e = None"
  shows "add_handler V e s b =
           (\<lparr>status = 201,
             reply = Json (set_prop ''leadId'' (JNum (int (next_id s))) (ok_response e))\<rparr>,
            s\<lparr>clients := clients s @ [\<lparr>leadId = next_id s, cols = to_row e b\<rparr>],
              next_id := Suc (next_id s)\<rparr>)"
  using assms select_by_phone_Nil [of s b]
  by (simp add: add_handler_def Let_def validationResult_Nil checkQuery_def insertQuery_def
        ok_response_def get_prop_def)

text \<open>
  The effect of the handler on the table, read off the code of the reply: a reply with
  code 1 comes with exactly the new row, any other reply with no change at all.
\<close>

lemma add_handler_effect:
  "snd (add_handler V e s b) =
     (if reply_code (fst (add_handler V e s b)) = Some (JNum 1)
      then s\<lparr>clients := clients s @ [\<lparr>leadId = next_id s, cols = to_row e b\<rparr>],
             next_id := Suc (next_id s)\<rparr>
      else s)"
proof (cases "failing_fields V b = []")
  case False
  then show ?thesis
    by (simp add: add_handler_invalid reply_code_def validation_error_def get_prop_def)
next
  case valid: True
  show ?thesis
  proof (cases "lookup_err e")
    case (Some detail)
    with valid show ?thesis
      by (simp add: add_handler_lookup_failed reply_code_def internal_error_def get_prop_def)
  next
    case lookup: None
    show ?thesis
    proof (cases "phone_exists s b")
      case True
      with valid lookup show ?thesis
        by (simp add: add_handler_duplicate reply_code_def duplicate_lead_def get_prop_def)
    next
      case new: False
      show ?thesis
      proof (cases "insert_err e")
        case (Some detail)
        with valid lookup new show ?thesis
          by (simp add: add_handler_insert_failed reply_code_def internal_error_def get_prop_def)
      next
        case None
        with valid lookup new show ?thesis
          by (simp add: add_handler_inserted reply_code_def ok_response_def get_prop_def)
      qed
    qed
  qed
qed

subsection \<open>The paths of the export handler\<close>

lemma export_handler_read_failed:
  assumes "select_err e = Some detail"
  shows "export_handler e s =
           (\<lparr>status = 500, reply = Json (internal_error e ''Database error'')\<rparr>, s)"
  using assms by (simp add: export_handler_def selectAll_def)

lemma export_handler_write_failed:
  assumes "select_err e = None" and "csv_err e = Some detail"
  shows "export_handler e s =
           (\<lparr>status = 500, reply = Json (internal_error e ''CSV writing error'')\<rparr>, s)"
  using assms by (simp add: export_handler_def selectAll_def writeRecords_def)

lemma export_handler_written:
  assumes "select_err e = None" and "csv_err e = None"
  shows "export_handler e s =
           (\<lparr>status = 200,
             reply = Download ''clients.csv''
                       ((if writer_append s then csv_file s else getHeaderString (zone e))
                        @ stringifyRecords (zone e) (clients s))\<rparr>,
            s\<lparr>csv_file := (if writer_append s then csv_file s else getHeaderString (zone e))
                             @ stringifyRecords (zone e) (clients s),
              writer_append := True\<rparr>)"
  using assms by (simp add: export_handler_def selectAll_def writeRecords_def)

lemma getHeaderString_text:
  "getHeaderString z =
     ''Title,Name,Surname,Phone Number,ID Number,Email,Notes,Opt-in Date,Preferred Time,Offer ID''
     @ [CHR 0x0A]"
  by (simp add: getHeaderString_def joinRecords_def header_def getCsvLine_def stringify_def
        isEmpty_def string_of_def needsQuote_def)

text \<open>
  The first export of a writer: the header, then the records of the rows of the table,
  in the order of the table. With no row the records are one empty line.
\<close>

lemma export_handler_first_write:
  assumes "select_err e = None" and "csv_err e = None" and "\<not> writer_append s"
  shows "reply (fst (export_handler e s)) =
           Download ''clients.csv''
             (getHeaderString (zone e)
              @ joinRecords (map (\<lambda>r. getCsvLine (zone e) (getRecordAsArray (cols r)))
                               (clients s)))"
  using assms by (simp add: export_handler_written stringifyRecords_def)

lemma stringifyRecords_no_row: "stringifyRecords z [] = [CHR 0x0A]"
  by (simp add: stringifyRecords_def joinRecords_def)

text \<open>A field is quoted for a comma, a line feed or a double quote, and for nothing else.\<close>

lemma stringify_examples:
  "stringify z (SqlString ''a,b'') = [CHR 0x22] @ ''a,b'' @ [CHR 0x22]"
  "stringify z (SqlString [CHR ''a'', CHR 0x0A, CHR ''b''])
     = [CHR 0x22, CHR ''a'', CHR 0x0A, CHR ''b'', CHR 0x22]"
  "stringify z (SqlString [CHR ''a'', CHR 0x0D, CHR ''b'']) = [CHR ''a'', CHR 0x0D, CHR ''b'']"
  "stringify z (SqlString [CHR ''a'', CHR 0x22]) = [CHR 0x22, CHR ''a'', CHR 0x22, CHR 0x22, CHR 0x22]"
  "stringify z SqlNull = []" "stringify z (SqlString []) = []"
  by (simp_all add: stringify_def isEmpty_def string_of_def needsQuote_def quoteField_def)

subsection \<open>The sample data\<close>

lemma john_valid: "failing_fields sample_validators john = []"
  by (simp add: failing_fields_def sample_validators_def john_def missing_or_empty_def
        toString_def is_string_def digits_def)

lemma john_known: "phone_exists server_with_john john"
  by (simp add: phone_exists_def server_with_john_def john_def to_row_def text_column_def
        sql_param_def)

lemma john_unknown: "\<not> phone_exists fresh_server john"
  by (simp add: phone_exists_def fresh_server_def john_def)

lemma john_date: "optindate (to_row calm john) = SqlDate (Date 2024 7 31)"
  by (simp add: to_row_def date_column_def sql_param_def john_def calm_def digit_value_def)

lemma getDay_examples:
  "getDay (Date 1970 1 1) = 4" "getDay (Date 2000 1 1) = 6" "getDay (Date 2024 2 29) = 4"
  "getDay (Date 2024 7 31) = 3"
  by (simp_all add: getDay_def)

lemma date_text:
  "dateToString ''+0000 (Coordinated Universal Time)'' (Date 2024 7 31) =
     ''Wed Jul 31 2024 00:00:00 GMT+0000 (Coordinated Universal Time)''"
  by (simp add: dateToString_def getDay_def digit_def)

lemma john_line:
  "getCsvLine (zone calm) (getRecordAsArray (to_row calm john)) =
     ''Mr.,John,Doe,+27123456789,1234567890123,john.doe@example.com,Client prefers to be contacted in the evening.,Wed Jul 31 2024 00:00:00 GMT+0000 (Coordinated Universal Time),18:00:00,Offer123''"
proof -
  have z: "zone calm = ''+0000 (Coordinated Universal Time)''"
    by (simp add: calm_def)
  have "getRecordAsArray (to_row calm john) =
          [SqlString ''Mr.'', SqlString ''John'', SqlString ''Doe'', SqlString ''+27123456789'',
           SqlString ''1234567890123'', SqlString ''john.doe@example.com'',
           SqlString ''Client prefers to be contacted in the evening.'',
           SqlDate (Date 2024 7 31), SqlString ''18:00:00'', SqlString ''Offer123'']"
    using john_date
    by (simp add: getRecordAsArray_def header_def to_row_def text_column_def sql_param_def
          john_def)
  then show ?thesis
    by (simp add: z getCsvLine_def stringify_def isEmpty_def string_of_def date_text
          needsQuote_def)
qed

subsection \<open>Claims about the insert handler\<close>

text \<open>
  C1. A submission that passes every validation rule, whose phone number is the phone
  number of no row, and whose insert succeeds (the lookup before it having succeeded)
  is answered with status 201 and the body
  \<open>{code: 1, response: "OK", info: [], leadId, processTime: 0, timestamp}\<close>, where
  \<open>leadId\<close> is the identifier generated for the new row, the last row of the table
  afterwards.
\<close>

theorem insert_success_response:
  assumes "failing_fields V b = []" and "lookup_err e = None" and "\<not> phone_exists s b"
    and "insert_err e = None"
  shows "fst (add_handler V e s b) =
           \<lparr>status = 201,
            reply = Json [(''code'', JNum 1), (''response'', JStr ''OK''), (''info'', JArr []),
                          (''leadId'', JNum (int (next_id s))), (''processTime'', JNum 0),
                          (''timestamp'', JStr (now e))]\<rparr>
         \<and> clients (snd (add_handler V e s b)) =
             clients s @ [\<lparr>leadId = next_id s, cols = to_row e b\<rparr>]"
  by (simp add: add_handler_inserted [OF assms] ok_response_def)

theorem insert_success_response_witness:
  "failing_fields sample_validators john = [] \<and> lookup_err calm = None
   \<and> \<not> phone_exists fresh_server john \<and> insert_err calm = None
   \<and> fst (add_handler sample_validators calm fresh_server john) =
           \<lparr>status = 201,
            reply = Json [(''code'', JNum 1), (''response'', JStr ''OK''), (''info'', JArr []),
                          (''leadId'', JNum 101), (''processTime'', JNum 0),
                          (''timestamp'', JStr ''2024-07-31T12:59:15.607Z'')]\<rparr>
   \<and> map leadId (clients (snd (add_handler sample_validators calm fresh_server john))) = [101]"
proof -
  have l: "lookup_err calm = None" and i: "insert_err calm = None"
    by (simp_all add: calm_def)
  from insert_success_response [OF john_valid l john_unknown i] john_valid l john_unknown i
  show ?thesis by (simp add: fresh_server_def calm_def)
qed

text \<open>
  C2. A submission that violates at least one validation rule (title, name or surname
  empty or missing, a phone number that is not a mobile number, an identity number
  whose length is not 13, an invalid email, or an invalid optional opt-in date,
  preferred time or offer identifier) is answered with status 400, code -5, response
  \<open>"Validation error"\<close> and an \<open>info\<close> array that names every violated field, not
  only the first; the table is left as it was.
\<close>

theorem validation_failure_response:
  assumes "failing_fields V b \<noteq> []"
  shows "add_handler V e s b =
           (\<lparr>status = 400,
             reply = Json [(''code'', JNum (- 5)), (''response'', JStr ''Validation error''),
                           (''info'', JArr (validationResult V b)), (''leadId'', JNull),
                           (''processTime'', JNum 0), (''timestamp'', JStr (now e))]\<rparr>, s)
         \<and> map param (validationResult V b) = failing_fields V b"
  by (simp add: add_handler_invalid [OF assms] validation_error_def validationResult_params)

theorem validation_failure_response_witness:
  "failing_fields sample_validators incomplete \<noteq> []
   \<and> add_handler sample_validators calm fresh_server incomplete =
           (\<lparr>status = 400,
             reply = Json [(''code'', JNum (- 5)), (''response'', JStr ''Validation error''),
                           (''info'', JArr (validationResult sample_validators incomplete)),
                           (''leadId'', JNull), (''processTime'', JNum 0),
                           (''timestamp'', JStr ''2024-07-31T12:59:15.607Z'')]\<rparr>, fresh_server)
   \<and> map param (validationResult sample_validators incomplete)
       = [''title'', ''id_number'', ''offerID'']"
proof -
  have f: "failing_fields sample_validators incomplete = [''title'', ''id_number'', ''offerID'']"
    by (simp add: failing_fields_def sample_validators_def incomplete_def john_def
          missing_or_empty_def toString_def is_string_def digits_def)
  then have n: "failing_fields sample_validators incomplete \<noteq> []" by simp
  from validation_failure_response [OF n, of calm fresh_server] f show ?thesis
    by (simp add: calm_def)
qed

text \<open>
  C3. A submission that passes validation and whose phone number is the phone number of
  a row of the table is answered, once the lookup has returned, with status 400, code
  -2, response \<open>"Invalid Lead"\<close> and description \<open>"Duplicate"\<close>; no row is inserted.
\<close>

theorem duplicate_phone_response:
  assumes "failing_fields V b = []" and "lookup_err e = None" and "phone_exists s b"
  shows "add_handler V e s b =
           (\<lparr>status = 400,
             reply = Json [(''code'', JNum (- 2)), (''response'', JStr ''Invalid Lead''),
                           (''description'', JStr ''Duplicate''), (''leadId'', JNull),
                           (''processTime'', JNum 0), (''timestamp'', JStr (now e))]\<rparr>, s)"
  by (simp add: add_handler_duplicate [OF assms] duplicate_lead_def)

theorem duplicate_phone_response_witness:
  "failing_fields sample_validators john = [] \<and> lookup_err calm = None
   \<and> phone_exists server_with_john john
   \<and> add_handler sample_validators calm server_with_john john =
           (\<lparr>status = 400,
             reply = Json [(''code'', JNum (- 2)), (''response'', JStr ''Invalid Lead''),
                           (''description'', JStr ''Duplicate''), (''leadId'', JNull),
                           (''processTime'', JNum 0),
                           (''timestamp'', JStr ''2024-07-31T12:59:15.607Z'')]\<rparr>,
            server_with_john)"
proof -
  have l: "lookup_err calm = None" by (simp add: calm_def)
  from duplicate_phone_response [OF john_valid l john_known] john_valid l john_known
  show ?thesis by (simp add: calm_def)
qed

text \<open>
  C4, as amended. Every JSON reply of either handler has exactly the properties
  \<open>code, response, info, leadId, processTime, timestamp\<close>, except the reply to a
  duplicate phone number, which has \<open>description\<close> where the others have \<open>info\<close>:
  \<open>code, response, description, leadId, processTime, timestamp\<close>. An export that
  succeeds replies with the file and no JSON.
\<close>

theorem reply_shapes:
  "reply_fields (fst (add_handler V e s b)) =
     Some (if failing_fields V b = [] \<and> lookup_err e = None \<and> phone_exists s b
           then duplicate_fields else envelope)
   \<and> reply_fields (fst (export_handler e s)) =
     (if select_err e = None \<and> csv_err e = None then None else Some envelope)"
proof -
  have add: "reply_fields (fst (add_handler V e s b)) =
     Some (if failing_fields V b = [] \<and> lookup_err e = None \<and> phone_exists s b
           then duplicate_fields else envelope)"
  proof (cases "failing_fields V b = []")
    case False
    then show ?thesis
      by (simp add: add_handler_invalid reply_fields_def validation_error_def envelope_def)
  next
    case valid: True
    show ?thesis
    proof (cases "lookup_err e")
      case (Some detail)
      with valid show ?thesis
        by (simp add: add_handler_lookup_failed reply_fields_def internal_error_def envelope_def)
    next
      case lookup: None
      show ?thesis
      proof (cases "phone_exists s b")
        case True
        with valid lookup show ?thesis
          by (simp add: add_handler_duplicate reply_fields_def duplicate_lead_def
                duplicate_fields_def)
      next
        case new: False
        show ?thesis
        proof (cases "insert_err e")
          case (Some detail)
          with valid lookup new show ?thesis
            by (simp add: add_handler_insert_failed reply_fields_def internal_error_def
                  envelope_def)
        next
          case None
          with valid lookup new show ?thesis
            by (simp add: add_handler_inserted reply_fields_def ok_response_def envelope_def)
        qed
      qed
    qed
  qed
  have export: "reply_fields (fst (export_handler e s)) =
     (if select_err e = None \<and> csv_err e = None then None else Some envelope)"
  proof (cases "select_err e")
    case (Some detail)
    then show ?thesis
      by (simp add: export_handler_read_failed reply_fields_def internal_error_def envelope_def)
  next
    case read: None
    show ?thesis
    proof (cases "csv_err e")
      case (Some detail)
      with read show ?thesis
        by (simp add: export_handler_write_failed reply_fields_def internal_error_def
              envelope_def)
    next
      case None
      with read show ?thesis
        by (simp add: export_handler_written reply_fields_def)
    qed
  qed
  from add export show ?thesis by simp
qed

theorem reply_shapes_witness:
  "reply_fields (fst (add_handler sample_validators calm fresh_server john)) = Some envelope
   \<and> reply_fields (fst (add_handler sample_validators calm server_with_john john))
       = Some duplicate_fields
   \<and> reply_fields (fst (export_handler down server_with_john)) = Some envelope
   \<and> reply_fields (fst (export_handler calm server_with_john)) = None"
  using reply_shapes [of sample_validators calm fresh_server john]
        reply_shapes [of sample_validators calm server_with_john john]
        reply_shapes [of sample_validators down server_with_john john]
        john_valid john_known john_unknown
  by (simp add: calm_def down_def)

theorem envelope_counterexample:
  "reply_fields (fst (add_handler sample_validators calm server_with_john john)) =
     Some [''code'', ''response'', ''description'', ''leadId'', ''processTime'', ''timestamp'']
   \<and> reply_fields (fst (add_handler sample_validators calm server_with_john john))
       \<noteq> Some envelope"
proof -
  have "lookup_err calm = None" by (simp add: calm_def)
  then show ?thesis
    using john_valid john_known
    by (simp add: add_handler_duplicate reply_fields_def duplicate_lead_def envelope_def)
qed

text \<open>
  C5. A datastore failure is answered with code -100, response \<open>"Internal error"\<close>
  and info \<open>{error: "Database error"}\<close>: with status 500 when the lookup of the insert
  handler or the read of the export handler fails, with status 400 when the insert
  itself fails. The body is the same whatever the detail of the failure is, which
  appears nowhere in it.
\<close>

theorem datastore_failure_responses:
  "(failing_fields V b = [] \<and> lookup_err e = Some detail \<longrightarrow>
      fst (add_handler V e s b) = \<lparr>status = 500, reply = Json (database_error (now e))\<rparr>)
   \<and> (failing_fields V b = [] \<and> lookup_err e = None \<and> \<not> phone_exists s b
        \<and> insert_err e = Some detail \<longrightarrow>
      fst (add_handler V e s b) = \<lparr>status = 400, reply = Json (database_error (now e))\<rparr>)
   \<and> (select_err e = Some detail \<longrightarrow>
      fst (export_handler e s) = \<lparr>status = 500, reply = Json (database_error (now e))\<rparr>)"
  by (simp add: add_handler_lookup_failed add_handler_insert_failed export_handler_read_failed
        internal_error_def database_error_def)

theorem datastore_failure_responses_witness:
  "fst (add_handler sample_validators down fresh_server john) =
     \<lparr>status = 500, reply = Json (database_error ''2024-07-31T12:59:15.607Z'')\<rparr>
   \<and> fst (add_handler sample_validators (down\<lparr>lookup_err := None\<rparr>) fresh_server john) =
     \<lparr>status = 400, reply = Json (database_error ''2024-07-31T12:59:15.607Z'')\<rparr>
   \<and> fst (export_handler down server_with_john) =
     \<lparr>status = 500, reply = Json (database_error ''2024-07-31T12:59:15.607Z'')\<rparr>"
  using datastore_failure_responses
          [of sample_validators john down "''Error: connect ECONNREFUSED 127.0.0.1:3306''"
              fresh_server]
        datastore_failure_responses
          [of sample_validators john "down\<lparr>lookup_err := None\<rparr>" "''Error: ER_DATA_TOO_LONG''"
              fresh_server]
        datastore_failure_responses
          [of sample_validators john down "''Error: read ECONNRESET''" server_with_john]
        john_valid john_unknown
  by (simp add: down_def)

text \<open>
  C6. A request to the insert handler that is answered with code 1 adds exactly one
  row to the table, the submitted one; a request answered with any other code
  (validation failure, duplicate, lookup error, insert error) leaves the table and the
  rest of the state as they were.
\<close>

theorem insert_rows_written:
  "(reply_code (fst (add_handler V e s b)) = Some (JNum 1) \<longrightarrow>
      clients (snd (add_handler V e s b)) = clients s @ [\<lparr>leadId = next_id s, cols = to_row e b\<rparr>])
   \<and> (reply_code (fst (add_handler V e s b)) \<noteq> Some (JNum 1) \<longrightarrow>
      snd (add_handler V e s b) = s)"
  using add_handler_effect [of V e s b] by simp

theorem insert_rows_written_witness:
  "reply_code (fst (add_handler sample_validators calm fresh_server john)) = Some (JNum 1)
   \<and> length (clients (snd (add_handler sample_validators calm fresh_server john))) = 1
   \<and> reply_code (fst (add_handler sample_validators calm server_with_john john)) \<noteq> Some (JNum 1)
   \<and> snd (add_handler sample_validators calm server_with_john john) = server_with_john"
proof -
  have a: "reply_code (fst (add_handler sample_validators calm fresh_server john)) = Some (JNum 1)"
    using john_valid john_unknown
    by (simp add: add_handler_inserted calm_def reply_code_def ok_response_def get_prop_def)
  have b: "reply_code (fst (add_handler sample_validators calm server_with_john john))
             \<noteq> Some (JNum 1)"
    using john_valid john_known
    by (simp add: add_handler_duplicate calm_def reply_code_def duplicate_lead_def get_prop_def)
  from insert_rows_written [of sample_validators calm fresh_server john]
       insert_rows_written [of sample_validators calm server_with_john john] a b
  show ?thesis by (simp add: fresh_server_def)
qed

subsection \<open>Claims about the export handler\<close>

text \<open>
  C7. The claim is that every export that succeeds is the header followed by one record
  per row of the table. The server below holds one row; its first export is the header
  and one record, but its second export, with the table unchanged, holds the record
  twice: the writer is created once for the whole module, and after its first write
  it appends.
\<close>

theorem second_export_repeats_rows:
  "clients (snd (export_handler calm server_with_john)) = clients server_with_john
   \<and> length (clients server_with_john) = 1
   \<and> reply (fst (export_handler calm server_with_john)) =
       Download ''clients.csv''
         (''Title,Name,Surname,Phone Number,ID Number,Email,Notes,Opt-in Date,Preferred Time,Offer ID''
          @ [CHR 0x0A] @
          ''Mr.,John,Doe,+27123456789,1234567890123,john.doe@example.com,Client prefers to be contacted in the evening.,Wed Jul 31 2024 00:00:00 GMT+0000 (Coordinated Universal Time),18:00:00,Offer123''
          @ [CHR 0x0A])
   \<and> reply (fst (export_handler calm (snd (export_handler calm server_with_john)))) =
       Download ''clients.csv''
         (''Title,Name,Surname,Phone Number,ID Number,Email,Notes,Opt-in Date,Preferred Time,Offer ID''
          @ [CHR 0x0A] @
          ''Mr.,John,Doe,+27123456789,1234567890123,john.doe@example.com,Client prefers to be contacted in the evening.,Wed Jul 31 2024 00:00:00 GMT+0000 (Coordinated Universal Time),18:00:00,Offer123''
          @ [CHR 0x0A] @
          ''Mr.,John,Doe,+27123456789,1234567890123,john.doe@example.com,Client prefers to be contacted in the evening.,Wed Jul 31 2024 00:00:00 GMT+0000 (Coordinated Universal Time),18:00:00,Offer123''
          @ [CHR 0x0A])"
proof -
  have e: "select_err calm = None" "csv_err calm = None"
    by (simp_all add: calm_def)
  have r: "stringifyRecords (zone calm) (clients server_with_john) =
             getCsvLine (zone calm) (getRecordAsArray (to_row calm john)) @ [CHR 0x0A]"
    by (simp add: stringifyRecords_def joinRecords_def server_with_john_def)
  have s: "clients (server_with_john\<lparr>csv_file := f, writer_append := True\<rparr>)
             = clients server_with_john" for f
    by simp
  have w: "\<not> writer_append server_with_john" "length (clients server_with_john) = 1"
    by (simp_all add: server_with_john_def)
  show ?thesis
    by (simp add: export_handler_written [OF e] r s w john_line getHeaderString_text)
qed

text \<open>
  C8. An export whose read succeeds and whose CSV write fails is answered with status
  500, code -100, response \<open>"Internal error"\<close> and info \<open>{error: "CSV writing error"}\<close>.
\<close>

theorem csv_failure_response:
  assumes "select_err e = None" and "csv_err e = Some detail"
  shows "fst (export_handler e s) =
           \<lparr>status = 500,
            reply = Json [(''code'', JNum (- 100)), (''response'', JStr ''Internal error''),
                          (''info'', JObj [(''error'', ''CSV writing error'')]),
                          (''leadId'', JNull), (''processTime'', JNum 0),
                          (''timestamp'', JStr (now e))]\<rparr>"
  by (simp add: export_handler_write_failed [OF assms] internal_error_def)

theorem csv_failure_response_witness:
  "select_err (down\<lparr>select_err := None\<rparr>) = None
   \<and> csv_err (down\<lparr>select_err := None\<rparr>) = Some ''EACCES: permission denied''
   \<and> fst (export_handler (down\<lparr>select_err := None\<rparr>) server_with_john) =
           \<lparr>status = 500,
            reply = Json [(''code'', JNum (- 100)), (''response'', JStr ''Internal error''),
                          (''info'', JObj [(''error'', ''CSV writing error'')]),
                          (''leadId'', JNull), (''processTime'', JNum 0),
                          (''timestamp'', JStr ''2024-07-31T12:59:15.607Z'')]\<rparr>"
proof -
  have r: "select_err (down\<lparr>select_err := None\<rparr>) = None"
    and w: "csv_err (down\<lparr>select_err := None\<rparr>) = Some ''EACCES: permission denied''"
    by (simp_all add: down_def)
  from csv_failure_response [OF r w, of server_with_john] r w show ?thesis
    by (simp add: down_def)
qed

text \<open>
  C9. The claim is that a submission with every optional field given, once inserted,
  appears in the next export with its ten columns equal to the submitted values. The
  submission below is the documented example, with opt-in date \<^verbatim>\<open>2024-07-31\<close>; it
  is inserted into an empty table (the reply has code 1) and the table is exported.
  The record of the export has nine columns as submitted, and for the opt-in date
  the runtime's string of the date object the driver returned.
\<close>

theorem export_after_insert_prints_date_object:
  "reply_code (fst (add_handler sample_validators calm fresh_server john)) = Some (JNum 1)
   \<and> optindate john = Str ''2024-07-31''
   \<and> reply (fst (export_handler calm
                   (snd (add_handler sample_validators calm fresh_server john)))) =
       Download ''clients.csv''
         (''Title,Name,Surname,Phone Number,ID Number,Email,Notes,Opt-in Date,Preferred Time,Offer ID''
          @ [CHR 0x0A] @
          ''Mr.,John,Doe,+27123456789,1234567890123,john.doe@example.com,Client prefers to be contacted in the evening.,Wed Jul 31 2024 00:00:00 GMT+0000 (Coordinated Universal Time),18:00:00,Offer123''
          @ [CHR 0x0A])"
proof -
  have c: "lookup_err calm = None" "insert_err calm = None"
    and e: "select_err calm = None" "csv_err calm = None"
    by (simp_all add: calm_def)
  note a = add_handler_inserted [OF john_valid c(1) john_unknown c(2)]
  have r: "stringifyRecords (zone calm) [\<lparr>leadId = n, cols = to_row calm john\<rparr>] =
             getCsvLine (zone calm) (getRecordAsArray (to_row calm john)) @ [CHR 0x0A]" for n
    by (simp add: stringifyRecords_def joinRecords_def)
  have w: "\<not> writer_append fresh_server" "clients fresh_server = []"
    by (simp_all add: fresh_server_def)
  have o: "optindate john = Str ''2024-07-31''"
    by (simp add: john_def)
  show ?thesis
    by (simp add: a export_handler_written [OF e] reply_code_def ok_response_def get_prop_def
          w o r john_line getHeaderString_text)
qed


subsection \<open>Claims about single rules\<close>

text \<open>
  C10. When the identity number of a submission is a string, its rule is violated
  exactly when the length of the string is not 13: a string of 13 characters passes
  whatever its characters are, digits or not.
\<close>

theorem id_number_length_only:
  assumes "id_number b = Str str"
  shows "(''id_number'' \<in> set (map param (validationResult V b))) = (length str \<noteq> 13)"
  using assms by (simp add: validationResult_params failing_fields_def toString_def)

theorem id_number_length_only_witness:
  "id_number (john\<lparr>id_number := Str ''ABCDEFGHIJ-+ ''\<rparr>) = Str ''ABCDEFGHIJ-+ ''
   \<and> ''id_number'' \<notin> set (map param (validationResult sample_validators
                                         (john\<lparr>id_number := Str ''ABCDEFGHIJ-+ ''\<rparr>)))"
  using id_number_length_only
          [of "john\<lparr>id_number := Str ''ABCDEFGHIJ-+ ''\<rparr>" "''ABCDEFGHIJ-+ ''" sample_validators]
  by simp

end
